theory Spec2Isabelle
  imports Main "HOL-Library.Word"
begin

section \<open>The parsed-source model the checks consume\<close>

text \<open>
  The checks of this repository are plugins of a compiler frontend. They read an already
  parsed tree through query functions and report through the methods of their base class.
  The embedding keeps that boundary: a tree node is a value carrying what the queries used
  by the checks return, a null pointer is \<open>None\<close>, and every call into the reporting
  interface is an entry of an event list, in the order the calls are made.
\<close>

subsection \<open>Source locations and ranges\<close>

text \<open>
  A source location of the frontend is an opaque 32-bit identifier; the identifier 0 is
  the invalid location. \<open>getLocWithOffset\<close> adds a signed offset to the identifier,
  with the wrap-around of unsigned 32-bit arithmetic. A range is a pair of locations and is
  valid when both ends are.
\<close>

type_synonym SourceLocation = "32 word"

definition loc_isValid :: "SourceLocation \<Rightarrow> bool" where
  "loc_isValid l = (l \<noteq> 0)"

definition loc_isInvalid :: "SourceLocation \<Rightarrow> bool" where
  "loc_isInvalid l = (l = 0)"

definition getLocWithOffset :: "SourceLocation \<Rightarrow> int \<Rightarrow> SourceLocation" where
  "getLocWithOffset l off = l + word_of_int off"

datatype SourceRange = SourceRange (getBegin: SourceLocation) (getEnd: SourceLocation)

definition range_isValid :: "SourceRange \<Rightarrow> bool" where
  "range_isValid r = (loc_isValid (getBegin r) \<and> loc_isValid (getEnd r))"

definition range_isInvalid :: "SourceRange \<Rightarrow> bool" where
  "range_isInvalid r = (\<not> range_isValid r)"

subsection \<open>Text edits\<close>

text \<open>
  \<open>FixItHint::CreateInsertion\<close> and \<open>FixItHint::CreateReplacement\<close>: the two kinds of
  edit a check attaches to a diagnostic.
\<close>

datatype FixItHint =
    CreateInsertion SourceLocation string
  | CreateReplacement SourceRange string

fun isInsertion :: "FixItHint \<Rightarrow> bool" where
  "isInsertion (CreateInsertion l t) = True"
| "isInsertion (CreateReplacement r t) = False"

subsection \<open>Declarations\<close>

text \<open>
  A function declaration as the checks query it: its kind (for \<open>dyn_cast\<close>), its
  qualified name, the name of the class that declares it (\<open>getParent()->getNameAsString()\<close>),
  its own name, and its parameters. A parameter is queried only for the printed form of
  its type.
\<close>

datatype DeclKind = Function | CXXMethod | CXXConstructor | CXXDestructor | CXXConversion

datatype ParmVarDecl = ParmVarDecl (getTypeAsString: string)

record FunctionDecl =
  declKind :: DeclKind
  getQualifiedNameAsString :: string
  getParentName :: string
  getNameAsString :: string
  params :: "ParmVarDecl list"

text \<open>\<open>dyn_cast<CXXMethodDecl>\<close> succeeds on a method and on the three kinds derived from it.\<close>

definition isCXXMethodDecl :: "FunctionDecl \<Rightarrow> bool" where
  "isCXXMethodDecl d = (declKind d \<in> {CXXMethod, CXXConstructor, CXXDestructor, CXXConversion})"

definition dyn_cast_CXXMethodDecl :: "FunctionDecl \<Rightarrow> FunctionDecl option" where
  "dyn_cast_CXXMethodDecl d = (if isCXXMethodDecl d then Some d else None)"

subsection \<open>Statements\<close>

text \<open>
  A statement node: its class, where it starts and ends, the declaration it resolves to
  (what \<open>getConstructor\<close>, \<open>getMethodDecl\<close> or \<open>getDirectCallee\<close> returns for a node of
  its class; \<open>None\<close> is the null pointer), the receiver expression of a call (the
  expression the call is chained on), and its arguments.
\<close>

datatype StmtClass =
    CXXConstructExprClass
  | CXXTemporaryObjectExprClass
  | CallExprClass
  | CXXOperatorCallExprClass
  | CXXMemberCallExprClass
  | UserDefinedLiteralClass
  | CUDAKernelCallExprClass
  | CXXBindTemporaryExprClass
  | CXXFunctionalCastExprClass
  | OtherStmtClass

datatype Stmt =
  Stmt (stmtClass: StmtClass) (getLocStart: SourceLocation) (getLocEnd: SourceLocation)
       (calleeDecl: "FunctionDecl option") (receiver: "Stmt option") (args: "Stmt list")

text \<open>
  \<open>dyn_cast\<close> to a class succeeds on the nodes of that class and of the classes derived
  from it: a temporary-object expression is a construct expression; operator calls, member
  calls, user-defined literals and kernel calls are call expressions. The other classes
  the checks cast to have no derived class.
\<close>

definition isCXXConstructExpr :: "Stmt \<Rightarrow> bool" where
  "isCXXConstructExpr s = (stmtClass s \<in> {CXXConstructExprClass, CXXTemporaryObjectExprClass})"

definition isCallExpr :: "Stmt \<Rightarrow> bool" where
  "isCallExpr s =
     (stmtClass s \<in> {CallExprClass, CXXOperatorCallExprClass, CXXMemberCallExprClass,
                       UserDefinedLiteralClass, CUDAKernelCallExprClass})"

definition getNumArgs :: "Stmt \<Rightarrow> nat" where
  "getNumArgs s = length (args s)"

subsection \<open>What a check does besides returning\<close>

text \<open>
  The calls a check makes into its base class and into the location printer, recorded in
  program order: \<open>emitWarning(loc, message, fixits)\<close> (the two-argument form passes no
  fixits), \<open>queueManualFixitWarning(loc, fixitType)\<close> and \<open>StringUtils::printLocation\<close>.
\<close>

datatype Event =
    EmitWarning SourceLocation string "FixItHint list"
  | QueueManualFixitWarning SourceLocation int
  | PrintLocation SourceLocation

fun isEmitWarning :: "Event \<Rightarrow> bool" where
  "isEmitWarning (EmitWarning l m f) = True"
| "isEmitWarning (QueueManualFixitWarning l t) = False"
| "isEmitWarning (PrintLocation l) = False"

fun isQueueManualFixitWarning :: "Event \<Rightarrow> bool" where
  "isQueueManualFixitWarning (EmitWarning l m f) = False"
| "isQueueManualFixitWarning (QueueManualFixitWarning l t) = True"
| "isQueueManualFixitWarning (PrintLocation l) = False"

text \<open>
  What a check instance holds and reads: the lexer query \<open>Lexer::getLocForEndOfToken\<close>
  (location and offset; the source manager and language options are fixed per translation
  unit), the parent map \<open>m_parentMap\<close>, and which fixits the configuration enabled
  (\<open>isFixitEnabled\<close>). The helper \<open>FixItUtils::biggestSourceLocationInStmt\<close> is
  declared but not defined in the sources; it is a field as well, so that every property
  holds whatever location it returns.
\<close>

record CheckBase =
  getLocForEndOfToken :: "SourceLocation \<Rightarrow> int \<Rightarrow> SourceLocation"
  biggestSourceLocationInStmt :: "Stmt \<Rightarrow> SourceLocation"
  m_parentMap :: "Stmt \<Rightarrow> Stmt option"
  isFixitEnabled :: "int \<Rightarrow> bool"

section \<open>qt4-qstring-from-array\<close>

definition FixItNone :: int where
  "FixItNone = 0"

definition FixItToFromLatin1 :: int where
  "FixItToFromLatin1 = 1"

text \<open>
  \<open>isInterestingParam\<close> writes its two reference parameters and returns their
  disjunction; the model returns the triple (result, is\_char\_array, is\_byte\_array).
\<close>

definition isInterestingParam :: "ParmVarDecl \<Rightarrow> bool \<times> bool \<times> bool" where
  "isInterestingParam param =
     (let typeStr = getTypeAsString param;
          is_byte_array = (typeStr = ''const class QByteArray &'');
          is_char_array = (\<not> is_byte_array \<and> typeStr = ''const char *'')
      in (is_char_array \<or> is_byte_array, is_char_array, is_byte_array))"

text \<open>
  Modelled from the spec: \<open>Utils::isOfClass\<close> is not among the sources. The spec lists
  the resolution of a method to its declaring type among the queries of the frontend; the
  model compares the name of the declaring class with the given one, as the sibling test in
  \<open>isInterestingMethodCall\<close> does inline.
\<close>

definition isOfClass :: "FunctionDecl \<Rightarrow> string \<Rightarrow> bool" where
  "isOfClass method className = (getParentName method = className)"

text \<open>
  The parameter loop of \<open>isInterestingCtorCall\<close>. Its body ends in \<open>break\<close> or in
  \<open>return false\<close>, so it never reaches a second iteration: \<open>None\<close> is the early return,
  \<open>Some\<close> carries the flags with which the code after the loop runs.
\<close>

fun ctorParamLoop :: "ParmVarDecl list \<Rightarrow> bool \<times> bool \<Rightarrow> (bool \<times> bool) option" where
  "ctorParamLoop [] flags = Some flags"
| "ctorParamLoop (p # ps) flags =
     (case isInterestingParam p of
        (True, is_char_array, is_byte_array) \<Rightarrow> Some (is_char_array, is_byte_array)
      | (False, is_char_array, is_byte_array) \<Rightarrow> None)"

definition isInterestingCtorCall :: "FunctionDecl option \<Rightarrow> bool \<times> bool \<times> bool" where
  "isInterestingCtorCall ctor =
     (case ctor of
        None \<Rightarrow> (False, False, False)
      | Some c \<Rightarrow>
          if \<not> isOfClass c ''QString'' then (False, False, False)
          else (case ctorParamLoop (params c) (False, False) of
                  None \<Rightarrow> (False, False, False)
                | Some (is_char_array, is_byte_array) \<Rightarrow>
                    (is_char_array \<or> is_byte_array, is_char_array, is_byte_array)))"

definition isInterestingMethod :: "string \<Rightarrow> bool" where
  "isInterestingMethod methodName =
     (methodName \<in> set [''append'', ''prepend'', ''operator='', ''operator=='', ''operator!='',
                          ''operator<'', ''operator<='', ''operator>'', ''operator>='', ''operator+=''])"

text \<open>
  \<open>isInterestingMethodCall\<close> also writes \<open>methodName\<close>, but only once the class and
  the parameter count have passed; the model returns
  (result, methodName, is\_char\_array, is\_byte\_array).
\<close>

definition isInterestingMethodCall ::
  "FunctionDecl option \<Rightarrow> string \<Rightarrow> bool \<times> string \<times> bool \<times> bool" where
  "isInterestingMethodCall method methodName =
     (case method of
        None \<Rightarrow> (False, methodName, False, False)
      | Some m \<Rightarrow>
          if getParentName m \<noteq> ''QString'' \<or> length (params m) \<noteq> 1
          then (False, methodName, False, False)
          else if \<not> isInterestingMethod (getNameAsString m)
          then (False, getNameAsString m, False, False)
          else (case isInterestingParam (params m ! 0) of
                  (r, is_char_array, is_byte_array) \<Rightarrow>
                    (r, getNameAsString m, is_char_array, is_byte_array)))"

definition isInterestingOperatorCall :: "Stmt \<Rightarrow> string \<Rightarrow> bool \<times> string \<times> bool \<times> bool" where
  "isInterestingOperatorCall op operatorName =
     (case calleeDecl op of
        None \<Rightarrow> (False, operatorName, False, False)
      | Some func \<Rightarrow> isInterestingMethodCall (dyn_cast_CXXMethodDecl func) operatorName)"

text \<open>
  Modelled from the spec: the body of \<open>FixItUtils::insertParentMethodCall\<close> is not among
  the sources; its declaration says it transforms \<open>foo\<close> into \<open>method(foo)\<close> by inserting
  \<open>method(\<close> at the beginning and \<open>)\<close> at the end, and the spec (wrap-in-call) says it
  produces two insertions, \<open>M(\<close> immediately before the span and \<open>)\<close> immediately after
  it. The edits are appended to the vector passed by reference.
\<close>

definition insertParentMethodCall :: "string \<Rightarrow> SourceRange \<Rightarrow> FixItHint list \<Rightarrow> FixItHint list" where
  "insertParentMethodCall method rng fixits =
     fixits @ [CreateInsertion (getBegin rng) (method @ ''(''),
               CreateInsertion (getEnd rng) '')'']"

text \<open>
  Modelled from the spec: \<open>HierarchyUtils::parent\<close> is not among the sources; the spec
  (parent index) says \<open>parentOf(node)\<close> returns the immediate parent or none. The check
  passes it a possibly null node and tests the result for null afterwards, so a null node
  has no parent.
\<close>

definition HierarchyUtils_parent :: "(Stmt \<Rightarrow> Stmt option) \<Rightarrow> Stmt option \<Rightarrow> Stmt option" where
  "HierarchyUtils_parent parentMap s = (case s of None \<Rightarrow> None | Some x \<Rightarrow> parentMap x)"

text \<open>
  The fix-it routines return the edits together with the events they raised.
\<close>

definition fixOperatorCall :: "CheckBase \<Rightarrow> Stmt \<Rightarrow> FixItHint list \<times> Event list" where
  "fixOperatorCall cb op =
     (if getNumArgs op = 2 then
        (let e = args op ! 1;
             start = getLocStart e;
             end = getLocForEndOfToken cb (biggestSourceLocationInStmt cb e) 0;
             rng = SourceRange start end
         in if range_isInvalid rng
            then ([], [EmitWarning (getLocStart op) ''internal error'' []])
            else (insertParentMethodCall ''QString::fromLatin1'' (SourceRange start end) [], []))
      else ([], [EmitWarning (getLocStart op) ''internal error'' []]))"

definition fixMethodCallCall :: "CheckBase \<Rightarrow> Stmt \<Rightarrow> FixItHint list \<times> Event list" where
  "fixMethodCallCall cb memberExpr =
     (if getNumArgs memberExpr = 1 then
        (let e = args memberExpr ! 0;
             start = getLocStart e;
             end = getLocForEndOfToken cb (biggestSourceLocationInStmt cb e) 0;
             rng = SourceRange start end
         in if range_isInvalid rng
            then ([], [EmitWarning (getLocStart memberExpr) ''internal error'' []])
            else (insertParentMethodCall ''QString::fromLatin1'' (SourceRange start end) [], []))
      else ([], [EmitWarning (getLocStart memberExpr) ''internal error'' []]))"

definition fixitReplaceWithFromLatin1 :: "CheckBase \<Rightarrow> Stmt \<Rightarrow> FixItHint list \<times> Event list" where
  "fixitReplaceWithFromLatin1 cb ctorExpr =
     (let replacement = ''QString::fromLatin1'';
          replacee = ''QString'';
          rangeStart = getLocStart ctorExpr;
          rangeEnd = getLocForEndOfToken cb rangeStart (- 1)
      in if loc_isInvalid rangeEnd then
           (let rangeEnd2 = getLocWithOffset rangeStart (int (length replacee) - 2)
            in if loc_isInvalid rangeEnd2
               then ([], [PrintLocation rangeStart,
                          PrintLocation rangeEnd2,
                          PrintLocation (getLocForEndOfToken cb rangeStart 0),
                          QueueManualFixitWarning (getLocStart ctorExpr) FixItToFromLatin1])
               else ([CreateReplacement (SourceRange rangeStart rangeEnd2) replacement], []))
         else ([CreateReplacement (SourceRange rangeStart rangeEnd) replacement], []))"

text \<open>
  \<open>fixitInsertFromLatin1\<close> dereferences \<open>arg_begin()\<close> without a test: on a constructor
  call with no argument the behaviour is undefined, which the model shows as \<open>None\<close>.
\<close>

definition fixitInsertFromLatin1 :: "CheckBase \<Rightarrow> Stmt \<Rightarrow> (FixItHint list \<times> Event list) option" where
  "fixitInsertFromLatin1 cb ctorExpr =
     (case args ctorExpr of
        [] \<Rightarrow> None
      | arg # rest \<Rightarrow>
          (let rng = SourceRange (getLocStart arg)
                         (getLocForEndOfToken cb (biggestSourceLocationInStmt cb ctorExpr) 0)
           in if range_isInvalid rng
              then Some ([], [EmitWarning (getLocStart ctorExpr) ''Internal error'' []])
              else Some (insertParentMethodCall ''QString::fromLatin1'' rng [], [])))"

definition fixCtorCall :: "CheckBase \<Rightarrow> Stmt \<Rightarrow> (FixItHint list \<times> Event list) option" where
  "fixCtorCall cb ctorExpr =
     (let parent = HierarchyUtils_parent (m_parentMap cb) (Some ctorExpr);
          grandParent = HierarchyUtils_parent (m_parentMap cb) parent
      in case (parent, grandParent) of
           (Some p, Some g) \<Rightarrow>
             if stmtClass p = CXXBindTemporaryExprClass \<and> stmtClass g = CXXFunctionalCastExprClass
             then Some (fixitReplaceWithFromLatin1 cb ctorExpr)
             else fixitInsertFromLatin1 cb ctorExpr
         | _ \<Rightarrow> fixitInsertFromLatin1 cb ctorExpr)"

text \<open>
  \<open>Qt4_QStringFromArray::VisitStmt\<close>: the events of the fix-it routine come first, the
  warning of the check last. \<open>None\<close> is the undefined behaviour inherited from
  \<open>fixitInsertFromLatin1\<close>.
\<close>

definition Qt4_QStringFromArray_VisitStmt :: "CheckBase \<Rightarrow> Stmt \<Rightarrow> Event list option" where
  "Qt4_QStringFromArray_VisitStmt cb stm =
     (let ctorExpr = isCXXConstructExpr stm;
          operatorCall = (stmtClass stm = CXXOperatorCallExprClass);
          memberCall = (stmtClass stm = CXXMemberCallExprClass)
      in if \<not> ctorExpr \<and> \<not> operatorCall \<and> \<not> memberCall then Some []
         else if ctorExpr then
           (case isInterestingCtorCall (calleeDecl stm) of
              (interesting, is_char_array, is_byte_array) \<Rightarrow>
                if \<not> interesting then Some []
                else (case fixCtorCall cb stm of
                        None \<Rightarrow> None
                      | Some (fixits, evs) \<Rightarrow>
                          Some (evs @ [EmitWarning (getLocStart stm)
                                  (if is_char_array then ''QString(const char *) ctor being called''
                                   else ''QString(QByteArray) ctor being called'') fixits])))
         else if operatorCall then
           (case isInterestingOperatorCall stm [] of
              (interesting, methodName, is_char_array, is_byte_array) \<Rightarrow>
                if \<not> interesting then Some []
                else (case fixOperatorCall cb stm of
                        (fixits, evs) \<Rightarrow>
                          Some (evs @ [EmitWarning (getLocStart stm)
                                  (if is_char_array
                                   then ''QString::'' @ methodName @ ''(const char *) being called''
                                   else ''QString::'' @ methodName @ ''(QByteArray) being called'')
                                  fixits])))
         else
           (case isInterestingMethodCall (calleeDecl stm) [] of
              (interesting, methodName, is_char_array, is_byte_array) \<Rightarrow>
                if \<not> interesting then Some []
                else (case fixMethodCallCall cb stm of
                        (fixits, evs) \<Rightarrow>
                          Some (evs @ [EmitWarning (getLocStart stm)
                                  (if is_char_array
                                   then ''QString::'' @ methodName @ ''(const char *) being called''
                                   else ''QString::'' @ methodName @ ''(QByteArray) being called'')
                                  fixits]))))"

section \<open>qdatetime-utc\<close>

definition FixitNone :: int where
  "FixitNone = 0"

definition FixitAll :: int where
  "FixitAll = 1"

text \<open>
  Modelled from the spec: \<open>Utils::callListForChain\<close> is not among the sources. The spec
  (data model, call chain) describes an ordered sequence of call nodes, outermost call
  last, derived on demand by walking the receiver expression of a call backward. The walk
  starts at the call it is given, which is the first element, steps from each expression
  to its receiver, and appends every call node it meets; the check reads the first call of
  the chain at the last index (\<open>firstCall = chainedCalls[size() - 1]\<close>).
\<close>

fun receivers :: "Stmt \<Rightarrow> Stmt list" where
  "receivers (Stmt c s e d r a) = (case r of None \<Rightarrow> [] | Some x \<Rightarrow> x # receivers x)"

definition callListForChain :: "Stmt \<Rightarrow> Stmt list" where
  "callListForChain lastCallExpr = lastCallExpr # filter isCallExpr (receivers lastCallExpr)"

text \<open>
  Modelled from the spec: the body of \<open>FixItUtils::transformTwoCallsIntoOneV2\<close> is not
  among the sources. Its declaration says it transforms \<open>foo("hello").bar()\<close> into
  \<open>baz()\<close> by replacing everything from start to end with \<open>baz\<close>; the spec (collapse-chain
  variant 2) says that, given only the trailing member call and a full replacement text,
  it replaces the entire span through the end of that call with the text verbatim, and
  that every synthesis function returns success with its edits or failure with nothing;
  an invalid range counts as failure. The result is the returned flag and the vector
  passed by reference.
\<close>

definition transformTwoCallsIntoOneV2 ::
  "CheckBase \<Rightarrow> Stmt \<Rightarrow> string \<Rightarrow> FixItHint list \<Rightarrow> bool \<times> FixItHint list" where
  "transformTwoCallsIntoOneV2 cb bar baz fixits =
     (let rng = SourceRange (getLocStart bar) (getLocEnd bar)
      in if range_isInvalid rng then (False, fixits)
         else (True, fixits @ [CreateReplacement rng baz]))"

definition QDateTimeUtc_VisitStmt :: "CheckBase \<Rightarrow> Stmt \<Rightarrow> Event list" where
  "QDateTimeUtc_VisitStmt cb stmt =
     (if stmtClass stmt \<noteq> CXXMemberCallExprClass then []
      else case calleeDecl stmt of
        None \<Rightarrow> []
      | Some secondMethod \<Rightarrow>
          (let secondMethodName = getQualifiedNameAsString secondMethod;
               isTimeT = (secondMethodName = ''QDateTime::toTime_t'')
           in if \<not> isTimeT \<and> secondMethodName \<noteq> ''QDateTime::toUTC'' then []
              else
                (let chainedCalls = callListForChain stmt
                 in if length chainedCalls < 2 then []
                    else
                      (let firstCall = chainedCalls ! (length chainedCalls - 1)
                       in case calleeDecl firstCall of
                            None \<Rightarrow> []
                          | Some firstFunc \<Rightarrow>
                              (case dyn_cast_CXXMethodDecl firstFunc of
                                 None \<Rightarrow> []
                               | Some firstMethod \<Rightarrow>
                                   if getQualifiedNameAsString firstMethod
                                        \<noteq> ''QDateTime::currentDateTime'' then []
                                   else
                                     (let replacement = ''::currentDateTimeUtc()'' @
                                            (if isTimeT then ''.toTime_t()'' else [])
                                      in if isFixitEnabled cb FixitAll then
                                           (case transformTwoCallsIntoOneV2 cb stmt replacement [] of
                                              (success, fixits) \<Rightarrow>
                                                (if \<not> success
                                                 then [QueueManualFixitWarning (getLocStart stmt) FixitAll]
                                                 else []) @
                                                [EmitWarning (getLocStart stmt)
                                                   (''Use QDateTime'' @ replacement @ '' instead'')
                                                   fixits])
                                         else [EmitWarning (getLocStart stmt)
                                                 (''Use QDateTime'' @ replacement @ '' instead'')
                                                 []]))))))"

text \<open>
  The anti-pattern of the check as its description words it, to compare \<open>VisitStmt\<close>
  with: a member call that resolves to \<open>QDateTime::toTime_t\<close> or \<open>QDateTime::toUTC\<close>,
  whose chain has at least two calls, the last of which resolves to a method named
  \<open>QDateTime::currentDateTime\<close>.
\<close>

definition isCurrentDateTimeChain :: "Stmt \<Rightarrow> bool" where
  "isCurrentDateTimeChain stmt =
     (stmtClass stmt = CXXMemberCallExprClass \<and>
      (case calleeDecl stmt of
         None \<Rightarrow> False
       | Some m \<Rightarrow> getQualifiedNameAsString m = ''QDateTime::toTime_t'' \<or>
                   getQualifiedNameAsString m = ''QDateTime::toUTC'') \<and>
      2 \<le> length (callListForChain stmt) \<and>
      (case calleeDecl (last (callListForChain stmt)) of
         None \<Rightarrow> False
       | Some f \<Rightarrow> isCXXMethodDecl f \<and>
                   getQualifiedNameAsString f = ''QDateTime::currentDateTime''))"

text \<open>
  The outermost call of a chain, in the usage of the spec: collapse-chain variant 2
  replaces from the start of the chain's outermost call through the end of the trailing
  call, so the outermost call of \<open>a().b().c()\<close> is its first call \<open>a()\<close>, the call on
  which every other call of the chain is chained. A call is chained on another when the
  walk back through its receiver expressions meets that other call.
\<close>

definition isOutermostCallOf :: "Stmt \<Rightarrow> Stmt list \<Rightarrow> bool" where
  "isOutermostCallOf x calls = (x \<in> set calls \<and> (\<forall>y \<in> set calls. y = x \<or> x \<in> set (receivers y)))"

section \<open>The dispatch walk\<close>

text \<open>
  Modelled from the spec: the dispatch loop and the registry are not among the sources
  (only the declarations of checks that override \<open>VisitStmt\<close> or \<open>VisitDecl\<close> are). The
  spec (check dispatch loop) says the loop enumerates every declaration and statement node
  exactly once, in the tree's natural order (outer to inner, left to right), and for each
  node invokes every enabled check whose declared interest matches the node's kind; the
  registry records for each check which node kinds it wants visited.
\<close>

datatype NodeKind = DeclarationNode | StatementNode

datatype Node = Node (nodeKind: NodeKind) (nodeId: nat) (children: "Node list")

record RegisteredCheck =
  checkName :: string
  visitsDecls :: bool
  visitsStmts :: bool
  enabled :: bool

datatype Invocation = Invocation (invokedCheck: RegisteredCheck) (visitedNode: Node)

fun walk :: "Node \<Rightarrow> Node list" where
  "walk (Node k i cs) = Node k i cs # concat (map walk cs)"

definition interestMatches :: "RegisteredCheck \<Rightarrow> NodeKind \<Rightarrow> bool" where
  "interestMatches c k = (case k of DeclarationNode \<Rightarrow> visitsDecls c | StatementNode \<Rightarrow> visitsStmts c)"

definition visitNode :: "RegisteredCheck list \<Rightarrow> Node \<Rightarrow> Invocation list" where
  "visitNode checks n =
     map (\<lambda>c. Invocation c n) (filter (\<lambda>c. enabled c \<and> interestMatches c (nodeKind n)) checks)"

definition dispatch :: "RegisteredCheck list \<Rightarrow> Node \<Rightarrow> Invocation list" where
  "dispatch checks translationUnit = concat (map (visitNode checks) (walk translationUnit))"

section \<open>Sample inputs\<close>

text \<open>
  A frontend whose lexer answers with the location after the one it is given, a failing
  lexer, a constructor call at the location whose identifier plus 5 wraps around to 0, a
  constructor call with no start location, a member call with no end location, the chain
  \<open>QDateTime::currentDateTime().toUTC().toTime_t()\<close>, and the trees of \<open>QString("abc")\<close>, \<open>s == "abc"\<close>, \<open>s.append("abc")\<close>,
  \<open>QDateTime::currentDateTime().toTime_t()\<close> and \<open>QDateTime::currentDateTime().toUTC()\<close>.
\<close>

definition ex_checkBase :: CheckBase where
  "ex_checkBase =
     \<lparr>getLocForEndOfToken = (\<lambda>l off. if l = 0 then 0 else l + 1),
      biggestSourceLocationInStmt = getLocEnd,
      m_parentMap = (\<lambda>s. None),
      isFixitEnabled = (\<lambda>f. f = 1)\<rparr>"

definition ex_failingLexer :: CheckBase where
  "ex_failingLexer = ex_checkBase\<lparr>getLocForEndOfToken := (\<lambda>l off. 0)\<rparr>"

definition ex_literal :: Stmt where
  "ex_literal = Stmt OtherStmtClass 108 108 None None []"

definition ex_variable :: Stmt where
  "ex_variable = Stmt OtherStmtClass 100 100 None None []"

definition ex_QString_ctor :: FunctionDecl where
  "ex_QString_ctor =
     \<lparr>declKind = CXXConstructor, getQualifiedNameAsString = ''QString::QString'',
      getParentName = ''QString'', getNameAsString = ''QString'',
      params = [ParmVarDecl ''const char *'']\<rparr>"

definition ex_QString_equals :: FunctionDecl where
  "ex_QString_equals =
     \<lparr>declKind = CXXMethod, getQualifiedNameAsString = ''QString::operator=='',
      getParentName = ''QString'', getNameAsString = ''operator=='',
      params = [ParmVarDecl ''const char *'']\<rparr>"

definition ex_QString_append :: FunctionDecl where
  "ex_QString_append =
     \<lparr>declKind = CXXMethod, getQualifiedNameAsString = ''QString::append'',
      getParentName = ''QString'', getNameAsString = ''append'',
      params = [ParmVarDecl ''const class QByteArray &'']\<rparr>"

definition ex_ctorExpr :: Stmt where
  "ex_ctorExpr = Stmt CXXConstructExprClass 100 113 (Some ex_QString_ctor) None [ex_literal]"

definition ex_bindTemporary :: Stmt where
  "ex_bindTemporary = Stmt CXXBindTemporaryExprClass 100 113 None None [ex_ctorExpr]"

definition ex_functionalCast :: Stmt where
  "ex_functionalCast = Stmt CXXFunctionalCastExprClass 100 113 None None [ex_bindTemporary]"

definition ex_temporaryContext :: CheckBase where
  "ex_temporaryContext =
     ex_checkBase\<lparr>m_parentMap :=
       (\<lambda>s. if s = ex_ctorExpr then Some ex_bindTemporary
            else if s = ex_bindTemporary then Some ex_functionalCast
            else None)\<rparr>"

definition ex_operatorCall :: Stmt where
  "ex_operatorCall =
     Stmt CXXOperatorCallExprClass 100 108 (Some ex_QString_equals) None [ex_variable, ex_literal]"

definition ex_badOperatorCall :: Stmt where
  "ex_badOperatorCall =
     Stmt CXXOperatorCallExprClass 100 108 (Some ex_QString_equals) None [ex_variable]"

definition ex_memberCall :: Stmt where
  "ex_memberCall =
     Stmt CXXMemberCallExprClass 100 113 (Some ex_QString_append) (Some ex_variable) [ex_literal]"

definition ex_badMemberCall :: Stmt where
  "ex_badMemberCall =
     Stmt CXXMemberCallExprClass 100 113 (Some ex_QString_append) (Some ex_variable) []"

definition ex_QDateTime_method :: "string \<Rightarrow> FunctionDecl" where
  "ex_QDateTime_method name =
     \<lparr>declKind = CXXMethod, getQualifiedNameAsString = ''QDateTime::'' @ name,
      getParentName = ''QDateTime'', getNameAsString = name, params = []\<rparr>"

definition ex_currentDateTime :: Stmt where
  "ex_currentDateTime =
     Stmt CallExprClass 300 327 (Some (ex_QDateTime_method ''currentDateTime'')) None []"

definition ex_toTime_t :: Stmt where
  "ex_toTime_t =
     Stmt CXXMemberCallExprClass 300 338 (Some (ex_QDateTime_method ''toTime_t''))
       (Some ex_currentDateTime) []"

definition ex_toUTC :: Stmt where
  "ex_toUTC =
     Stmt CXXMemberCallExprClass 300 335 (Some (ex_QDateTime_method ''toUTC''))
       (Some ex_currentDateTime) []"

definition ex_stmtCheck :: RegisteredCheck where
  "ex_stmtCheck =
     \<lparr>checkName = ''qset-intersects'', visitsDecls = False, visitsStmts = True, enabled = True\<rparr>"

definition ex_declCheck :: RegisteredCheck where
  "ex_declCheck =
     \<lparr>checkName = ''ctor-missing-parent-argument'', visitsDecls = True, visitsStmts = False,
      enabled = True\<rparr>"

definition ex_translationUnit :: Node where
  "ex_translationUnit =
     Node DeclarationNode 0 [Node DeclarationNode 1 [Node StatementNode 2 [Node StatementNode 3 []]]]"

definition ex_lateCtorExpr :: Stmt where
  "ex_lateCtorExpr =
     Stmt CXXConstructExprClass 4294967291 4294967291 (Some ex_QString_ctor) None [ex_literal]"

definition ex_lateTemporaryContext :: CheckBase where
  "ex_lateTemporaryContext =
     ex_failingLexer\<lparr>m_parentMap :=
       (\<lambda>s. if s = ex_lateCtorExpr then Some ex_bindTemporary
            else if s = ex_bindTemporary then Some ex_functionalCast
            else None)\<rparr>"

definition ex_unendedToTime_t :: Stmt where
  "ex_unendedToTime_t =
     Stmt CXXMemberCallExprClass 300 0 (Some (ex_QDateTime_method ''toTime_t''))
       (Some ex_currentDateTime) []"


definition ex_chainOfThree :: Stmt where
  "ex_chainOfThree =
     Stmt CXXMemberCallExprClass 300 346 (Some (ex_QDateTime_method ''toTime_t''))
       (Some ex_toUTC) []"

section \<open>Properties\<close>

lemmas ex_defs = ex_checkBase_def ex_failingLexer_def ex_literal_def ex_variable_def
  ex_QString_ctor_def ex_QString_equals_def ex_QString_append_def ex_ctorExpr_def
  ex_bindTemporary_def ex_functionalCast_def ex_temporaryContext_def ex_operatorCall_def
  ex_badOperatorCall_def ex_memberCall_def ex_badMemberCall_def ex_QDateTime_method_def
  ex_currentDateTime_def ex_toTime_t_def ex_toUTC_def

subsection \<open>Invalid ranges give no edit\<close>




subsection \<open>What qdatetime-utc does with a statement\<close>

text \<open>
  The index \<open>size() - 1\<close> of the chain is its last element: the chain is never empty.
\<close>

lemma chain_last_nth:
  "callListForChain stmt ! (length (callListForChain stmt) - 1) = last (callListForChain stmt)"
  by (simp add: callListForChain_def last_conv_nth)

lemma QDateTimeUtc_unmatched:
  "\<not> isCurrentDateTimeChain stmt \<Longrightarrow> QDateTimeUtc_VisitStmt cb stmt = []"
  unfolding QDateTimeUtc_VisitStmt_def isCurrentDateTimeChain_def Let_def chain_last_nth
    dyn_cast_CXXMethodDecl_def
  by (auto split: option.splits)

lemma QDateTimeUtc_matched_toTime_t:
  assumes "isCurrentDateTimeChain stmt" and "calleeDecl stmt = Some m"
    and "getQualifiedNameAsString m = ''QDateTime::toTime_t''"
  shows "QDateTimeUtc_VisitStmt cb stmt =
     (if isFixitEnabled cb FixitAll then
        (if \<not> fst (transformTwoCallsIntoOneV2 cb stmt ''::currentDateTimeUtc().toTime_t()'' [])
         then [QueueManualFixitWarning (getLocStart stmt) FixitAll] else []) @
        [EmitWarning (getLocStart stmt) ''Use QDateTime::currentDateTimeUtc().toTime_t() instead''
           (snd (transformTwoCallsIntoOneV2 cb stmt ''::currentDateTimeUtc().toTime_t()'' []))]
      else [EmitWarning (getLocStart stmt)
              ''Use QDateTime::currentDateTimeUtc().toTime_t() instead'' []])"
  using assms
  unfolding QDateTimeUtc_VisitStmt_def isCurrentDateTimeChain_def Let_def chain_last_nth
    dyn_cast_CXXMethodDecl_def
  by (auto split: option.splits prod.splits)

lemma QDateTimeUtc_matched_toUTC:
  assumes "isCurrentDateTimeChain stmt" and "calleeDecl stmt = Some m"
    and "getQualifiedNameAsString m = ''QDateTime::toUTC''"
  shows "QDateTimeUtc_VisitStmt cb stmt =
     (if isFixitEnabled cb FixitAll then
        (if \<not> fst (transformTwoCallsIntoOneV2 cb stmt ''::currentDateTimeUtc()'' [])
         then [QueueManualFixitWarning (getLocStart stmt) FixitAll] else []) @
        [EmitWarning (getLocStart stmt) ''Use QDateTime::currentDateTimeUtc() instead''
           (snd (transformTwoCallsIntoOneV2 cb stmt ''::currentDateTimeUtc()'' []))]
      else [EmitWarning (getLocStart stmt) ''Use QDateTime::currentDateTimeUtc() instead'' []])"
  using assms
  unfolding QDateTimeUtc_VisitStmt_def isCurrentDateTimeChain_def Let_def chain_last_nth
    dyn_cast_CXXMethodDecl_def
  by (auto split: option.splits prod.splits)

lemma QDateTimeUtc_matched_warns:
  assumes "isCurrentDateTimeChain stmt"
  shows "list_ex isEmitWarning (QDateTimeUtc_VisitStmt cb stmt)"
proof -
  from assms obtain m where m: "calleeDecl stmt = Some m"
    and "getQualifiedNameAsString m = ''QDateTime::toTime_t'' \<or>
         getQualifiedNameAsString m = ''QDateTime::toUTC''"
    by (auto simp: isCurrentDateTimeChain_def split: option.splits)
  then show ?thesis
    using QDateTimeUtc_matched_toTime_t [OF assms m, of cb]
      QDateTimeUtc_matched_toUTC [OF assms m, of cb]
    by auto
qed

lemma ex_toTime_t_matches: "isCurrentDateTimeChain ex_toTime_t"
  by (simp add: isCurrentDateTimeChain_def callListForChain_def isCallExpr_def
      isCXXMethodDecl_def ex_defs)

lemma ex_toUTC_matches: "isCurrentDateTimeChain ex_toUTC"
  by (simp add: isCurrentDateTimeChain_def callListForChain_def isCallExpr_def
      isCXXMethodDecl_def ex_defs)

subsection \<open>Collapsing the chain\<close>

text \<open>
  C2, as the code has it. On a chain ending in \<open>toTime_t()\<close> or \<open>toUTC()\<close> after
  \<open>QDateTime::currentDateTime()\<close>, with the fixit enabled, the check hands the trailing
  member call and the full replacement text to \<open>transformTwoCallsIntoOneV2\<close> (collapse-chain
  variant 2). The text is \<open>::currentDateTimeUtc().toTime_t()\<close> in the first case and
  \<open>::currentDateTimeUtc()\<close>, with nothing appended, in the second; both start with the
  scope operator. When the range of the call is valid, the warning carries that one
  replacement as its only edit.
\<close>

theorem QDateTimeUtc_collapse_chain:
  "isCurrentDateTimeChain stmt \<and> calleeDecl stmt = Some m \<and> isFixitEnabled cb FixitAll \<and>
   range_isValid (SourceRange (getLocStart stmt) (getLocEnd stmt)) \<longrightarrow>
     (getQualifiedNameAsString m = ''QDateTime::toTime_t'' \<longrightarrow>
        transformTwoCallsIntoOneV2 cb stmt ''::currentDateTimeUtc().toTime_t()'' [] =
          (True, [CreateReplacement (SourceRange (getLocStart stmt) (getLocEnd stmt))
                    ''::currentDateTimeUtc().toTime_t()'']) \<and>
        QDateTimeUtc_VisitStmt cb stmt =
          [EmitWarning (getLocStart stmt) ''Use QDateTime::currentDateTimeUtc().toTime_t() instead''
             [CreateReplacement (SourceRange (getLocStart stmt) (getLocEnd stmt))
                ''::currentDateTimeUtc().toTime_t()'']]) \<and>
     (getQualifiedNameAsString m = ''QDateTime::toUTC'' \<longrightarrow>
        transformTwoCallsIntoOneV2 cb stmt ''::currentDateTimeUtc()'' [] =
          (True, [CreateReplacement (SourceRange (getLocStart stmt) (getLocEnd stmt))
                    ''::currentDateTimeUtc()'']) \<and>
        QDateTimeUtc_VisitStmt cb stmt =
          [EmitWarning (getLocStart stmt) ''Use QDateTime::currentDateTimeUtc() instead''
             [CreateReplacement (SourceRange (getLocStart stmt) (getLocEnd stmt))
                ''::currentDateTimeUtc()'']])"
proof (intro impI conjI; elim conjE)
  assume h: "isCurrentDateTimeChain stmt" "calleeDecl stmt = Some m" "isFixitEnabled cb FixitAll"
    "range_isValid (SourceRange (getLocStart stmt) (getLocEnd stmt))"
  {
    assume q: "getQualifiedNameAsString m = ''QDateTime::toTime_t''"
    from h(4) show "transformTwoCallsIntoOneV2 cb stmt ''::currentDateTimeUtc().toTime_t()'' [] =
          (True, [CreateReplacement (SourceRange (getLocStart stmt) (getLocEnd stmt))
                    ''::currentDateTimeUtc().toTime_t()''])"
      by (simp add: transformTwoCallsIntoOneV2_def range_isInvalid_def)
    then show "QDateTimeUtc_VisitStmt cb stmt =
          [EmitWarning (getLocStart stmt) ''Use QDateTime::currentDateTimeUtc().toTime_t() instead''
             [CreateReplacement (SourceRange (getLocStart stmt) (getLocEnd stmt))
                ''::currentDateTimeUtc().toTime_t()'']]"
      using h(3) by (simp add: QDateTimeUtc_matched_toTime_t [OF h(1) h(2) q])
  }
  {
    assume q: "getQualifiedNameAsString m = ''QDateTime::toUTC''"
    from h(4) show "transformTwoCallsIntoOneV2 cb stmt ''::currentDateTimeUtc()'' [] =
          (True, [CreateReplacement (SourceRange (getLocStart stmt) (getLocEnd stmt))
                    ''::currentDateTimeUtc()''])"
      by (simp add: transformTwoCallsIntoOneV2_def range_isInvalid_def)
    then show "QDateTimeUtc_VisitStmt cb stmt =
          [EmitWarning (getLocStart stmt) ''Use QDateTime::currentDateTimeUtc() instead''
             [CreateReplacement (SourceRange (getLocStart stmt) (getLocEnd stmt))
                ''::currentDateTimeUtc()'']]"
      using h(3) by (simp add: QDateTimeUtc_matched_toUTC [OF h(1) h(2) q])
  }
qed

text \<open>The two chains of the sample inputs.\<close>

theorem QDateTimeUtc_collapse_chain_witness:
  "isCurrentDateTimeChain ex_toTime_t \<and>
   calleeDecl ex_toTime_t = Some (ex_QDateTime_method ''toTime_t'') \<and>
   isCurrentDateTimeChain ex_toUTC \<and>
   calleeDecl ex_toUTC = Some (ex_QDateTime_method ''toUTC'') \<and>
   isFixitEnabled ex_checkBase FixitAll \<and>
   range_isValid (SourceRange (getLocStart ex_toTime_t) (getLocEnd ex_toTime_t)) \<and>
   range_isValid (SourceRange (getLocStart ex_toUTC) (getLocEnd ex_toUTC)) \<and>
   getQualifiedNameAsString (ex_QDateTime_method ''toTime_t'') = ''QDateTime::toTime_t'' \<and>
   getQualifiedNameAsString (ex_QDateTime_method ''toUTC'') = ''QDateTime::toUTC'' \<and>
   QDateTimeUtc_VisitStmt ex_checkBase ex_toTime_t =
     [EmitWarning 300 ''Use QDateTime::currentDateTimeUtc().toTime_t() instead''
        [CreateReplacement (SourceRange 300 338) ''::currentDateTimeUtc().toTime_t()'']] \<and>
   QDateTimeUtc_VisitStmt ex_checkBase ex_toUTC =
     [EmitWarning 300 ''Use QDateTime::currentDateTimeUtc() instead''
        [CreateReplacement (SourceRange 300 335) ''::currentDateTimeUtc()'']]"
proof -
  have e: "isFixitEnabled ex_checkBase FixitAll"
    by (simp add: ex_checkBase_def FixitAll_def)
  have m1: "calleeDecl ex_toTime_t = Some (ex_QDateTime_method ''toTime_t'')"
    and m2: "calleeDecl ex_toUTC = Some (ex_QDateTime_method ''toUTC'')"
    by (simp_all add: ex_toTime_t_def ex_toUTC_def)
  have r1: "range_isValid (SourceRange (getLocStart ex_toTime_t) (getLocEnd ex_toTime_t))"
    and r2: "range_isValid (SourceRange (getLocStart ex_toUTC) (getLocEnd ex_toUTC))"
    by (simp_all add: range_isValid_def loc_isValid_def ex_toTime_t_def ex_toUTC_def)
  have q1: "getQualifiedNameAsString (ex_QDateTime_method ''toTime_t'') = ''QDateTime::toTime_t''"
    and q2: "getQualifiedNameAsString (ex_QDateTime_method ''toUTC'') = ''QDateTime::toUTC''"
    by (simp_all add: ex_QDateTime_method_def)
  have l: "getLocStart ex_toTime_t = 300" "getLocEnd ex_toTime_t = 338"
    "getLocStart ex_toUTC = 300" "getLocEnd ex_toUTC = 335"
    by (simp_all add: ex_toTime_t_def ex_toUTC_def)
  from QDateTimeUtc_collapse_chain [of ex_toTime_t "ex_QDateTime_method ''toTime_t''" ex_checkBase]
    ex_toTime_t_matches m1 e r1 q1
  have a: "QDateTimeUtc_VisitStmt ex_checkBase ex_toTime_t =
     [EmitWarning 300 ''Use QDateTime::currentDateTimeUtc().toTime_t() instead''
        [CreateReplacement (SourceRange 300 338) ''::currentDateTimeUtc().toTime_t()'']]"
    by (simp add: l)
  from QDateTimeUtc_collapse_chain [of ex_toUTC "ex_QDateTime_method ''toUTC''" ex_checkBase]
    ex_toUTC_matches m2 e r2 q2
  have b: "QDateTimeUtc_VisitStmt ex_checkBase ex_toUTC =
     [EmitWarning 300 ''Use QDateTime::currentDateTimeUtc() instead''
        [CreateReplacement (SourceRange 300 335) ''::currentDateTimeUtc()'']]"
    by (simp add: l)
  from ex_toTime_t_matches ex_toUTC_matches m1 m2 e r1 r2 q1 q2 a b show ?thesis by simp
qed

text \<open>
  The edit on \<open>QDateTime::currentDateTime().toTime_t()\<close> does not carry the text
  \<open>currentDateTimeUtc().toTime_t()\<close>: its text begins with \<open>::\<close>.
\<close>

theorem collapse_chain_text_counterexample:
  "isCurrentDateTimeChain ex_toTime_t \<and>
   isFixitEnabled ex_checkBase FixitAll \<and>
   QDateTimeUtc_VisitStmt ex_checkBase ex_toTime_t =
     [EmitWarning 300 ''Use QDateTime::currentDateTimeUtc().toTime_t() instead''
        [CreateReplacement (SourceRange 300 338) ''::currentDateTimeUtc().toTime_t()'']] \<and>
   \<not> (\<exists>loc msg rng. QDateTimeUtc_VisitStmt ex_checkBase ex_toTime_t =
         [EmitWarning loc msg [CreateReplacement rng ''currentDateTimeUtc().toTime_t()'']])"
proof -
  have a: "isCurrentDateTimeChain ex_toTime_t"
    by (simp add: isCurrentDateTimeChain_def callListForChain_def isCallExpr_def
        isCXXMethodDecl_def ex_defs)
  have m: "calleeDecl ex_toTime_t = Some (ex_QDateTime_method ''toTime_t'')"
    by (simp add: ex_toTime_t_def)
  have q: "getQualifiedNameAsString (ex_QDateTime_method ''toTime_t'') = ''QDateTime::toTime_t''"
    by (simp add: ex_QDateTime_method_def)
  have v: "QDateTimeUtc_VisitStmt ex_checkBase ex_toTime_t =
     [EmitWarning 300 ''Use QDateTime::currentDateTimeUtc().toTime_t() instead''
        [CreateReplacement (SourceRange 300 338) ''::currentDateTimeUtc().toTime_t()'']]"
    unfolding QDateTimeUtc_matched_toTime_t [OF a m q]
    by (simp add: transformTwoCallsIntoOneV2_def range_isInvalid_def range_isValid_def
        loc_isValid_def FixitAll_def ex_checkBase_def ex_toTime_t_def)
  have e: "isFixitEnabled ex_checkBase FixitAll"
    by (simp add: ex_checkBase_def FixitAll_def)
  from a e v show ?thesis by simp
qed

subsection \<open>Choosing the constructor fix\<close>

text \<open>
  C3. \<open>fixCtorCall\<close> chooses by the syntactic context: when the parent of the
  constructor call is a bind-temporary node and the grandparent a functional-cast node,
  the result is that of \<open>fixitReplaceWithFromLatin1\<close>; in every other context it is that
  of \<open>fixitInsertFromLatin1\<close>, whose edits are all insertions, so nothing of the original
  text is replaced.
\<close>

theorem fixCtorCall_strategy:
  "((\<exists>p g. m_parentMap cb ctorExpr = Some p \<and> m_parentMap cb p = Some g \<and>
            stmtClass p = CXXBindTemporaryExprClass \<and> stmtClass g = CXXFunctionalCastExprClass) \<longrightarrow>
      fixCtorCall cb ctorExpr = Some (fixitReplaceWithFromLatin1 cb ctorExpr))
   \<and> (\<not> (\<exists>p g. m_parentMap cb ctorExpr = Some p \<and> m_parentMap cb p = Some g \<and>
            stmtClass p = CXXBindTemporaryExprClass \<and> stmtClass g = CXXFunctionalCastExprClass) \<longrightarrow>
      fixCtorCall cb ctorExpr = fixitInsertFromLatin1 cb ctorExpr \<and>
      (\<forall>fixits evs. fixCtorCall cb ctorExpr = Some (fixits, evs) \<longrightarrow> list_all isInsertion fixits))"
proof (intro conjI impI)
  assume "\<exists>p g. m_parentMap cb ctorExpr = Some p \<and> m_parentMap cb p = Some g \<and>
            stmtClass p = CXXBindTemporaryExprClass \<and> stmtClass g = CXXFunctionalCastExprClass"
  then show "fixCtorCall cb ctorExpr = Some (fixitReplaceWithFromLatin1 cb ctorExpr)"
    by (auto simp: fixCtorCall_def HierarchyUtils_parent_def Let_def)
next
  assume other: "\<not> (\<exists>p g. m_parentMap cb ctorExpr = Some p \<and> m_parentMap cb p = Some g \<and>
            stmtClass p = CXXBindTemporaryExprClass \<and> stmtClass g = CXXFunctionalCastExprClass)"
  then show ins: "fixCtorCall cb ctorExpr = fixitInsertFromLatin1 cb ctorExpr"
    by (auto simp: fixCtorCall_def HierarchyUtils_parent_def Let_def split: option.splits)
  show "\<forall>fixits evs. fixCtorCall cb ctorExpr = Some (fixits, evs) \<longrightarrow> list_all isInsertion fixits"
    unfolding ins
    by (auto simp: fixitInsertFromLatin1_def insertParentMethodCall_def Let_def
        split: list.splits if_splits)
qed

text \<open>
  \<open>QString("abc")\<close> as a bound and cast temporary, and the same call with no parent
  recorded.
\<close>

theorem fixCtorCall_strategy_witness:
  "(\<exists>p g. m_parentMap ex_temporaryContext ex_ctorExpr = Some p \<and>
          m_parentMap ex_temporaryContext p = Some g \<and>
          stmtClass p = CXXBindTemporaryExprClass \<and> stmtClass g = CXXFunctionalCastExprClass) \<and>
   fixCtorCall ex_temporaryContext ex_ctorExpr =
     Some ([CreateReplacement (SourceRange 100 101) ''QString::fromLatin1''], []) \<and>
   \<not> (\<exists>p g. m_parentMap ex_checkBase ex_ctorExpr = Some p \<and>
          m_parentMap ex_checkBase p = Some g \<and>
          stmtClass p = CXXBindTemporaryExprClass \<and> stmtClass g = CXXFunctionalCastExprClass) \<and>
   fixCtorCall ex_checkBase ex_ctorExpr =
     Some ([CreateInsertion 108 ''QString::fromLatin1('', CreateInsertion 114 '')''], []) \<and>
   list_all isInsertion [CreateInsertion 108 ''QString::fromLatin1('', CreateInsertion 114 '')'']"
proof -
  have ctx: "\<exists>p g. m_parentMap ex_temporaryContext ex_ctorExpr = Some p \<and>
          m_parentMap ex_temporaryContext p = Some g \<and>
          stmtClass p = CXXBindTemporaryExprClass \<and> stmtClass g = CXXFunctionalCastExprClass"
    by (simp add: ex_defs)
  have plain: "\<not> (\<exists>p g. m_parentMap ex_checkBase ex_ctorExpr = Some p \<and>
          m_parentMap ex_checkBase p = Some g \<and>
          stmtClass p = CXXBindTemporaryExprClass \<and> stmtClass g = CXXFunctionalCastExprClass)"
    by (simp add: ex_defs)
  have r: "fixitReplaceWithFromLatin1 ex_temporaryContext ex_ctorExpr =
      ([CreateReplacement (SourceRange 100 101) ''QString::fromLatin1''], [])"
    by (simp add: ex_defs fixitReplaceWithFromLatin1_def loc_isInvalid_def)
  have i: "fixitInsertFromLatin1 ex_checkBase ex_ctorExpr =
      Some ([CreateInsertion 108 ''QString::fromLatin1('', CreateInsertion 114 '')''], [])"
    by (simp add: ex_defs fixitInsertFromLatin1_def insertParentMethodCall_def
        range_isInvalid_def range_isValid_def loc_isValid_def)
  from fixCtorCall_strategy [of ex_temporaryContext ex_ctorExpr] ctx r
  have a: "fixCtorCall ex_temporaryContext ex_ctorExpr =
     Some ([CreateReplacement (SourceRange 100 101) ''QString::fromLatin1''], [])"
    by simp
  from fixCtorCall_strategy [of ex_checkBase ex_ctorExpr] plain i
  have b: "fixCtorCall ex_checkBase ex_ctorExpr =
     Some ([CreateInsertion 108 ''QString::fromLatin1('', CreateInsertion 114 '')''], [])"
    by simp
  from ctx plain a b show ?thesis by simp
qed

subsection \<open>Replacing the constructor name\<close>

text \<open>
  C4. \<open>fixitReplaceWithFromLatin1\<close> has three stages. It asks the lexer for the end of
  the token with offset -1 and, when that location is valid, replaces up to it. Otherwise
  it shifts the start by the size of \<open>QString\<close> minus 2 and, when that location is
  valid, replaces up to it. When both are invalid it returns no edit and queues a manual
  fixit warning at the start of the constructor call.
\<close>

theorem fixitReplaceWithFromLatin1_stages:
  "(loc_isValid (getLocForEndOfToken cb (getLocStart ctorExpr) (- 1)) \<longrightarrow>
      fixitReplaceWithFromLatin1 cb ctorExpr =
        ([CreateReplacement
            (SourceRange (getLocStart ctorExpr) (getLocForEndOfToken cb (getLocStart ctorExpr) (- 1)))
            ''QString::fromLatin1''], []))
   \<and> (loc_isInvalid (getLocForEndOfToken cb (getLocStart ctorExpr) (- 1)) \<and>
       loc_isValid (getLocWithOffset (getLocStart ctorExpr) (int (length ''QString'') - 2)) \<longrightarrow>
      fixitReplaceWithFromLatin1 cb ctorExpr =
        ([CreateReplacement
            (SourceRange (getLocStart ctorExpr)
               (getLocWithOffset (getLocStart ctorExpr) (int (length ''QString'') - 2)))
            ''QString::fromLatin1''], []))
   \<and> (loc_isInvalid (getLocForEndOfToken cb (getLocStart ctorExpr) (- 1)) \<and>
       loc_isInvalid (getLocWithOffset (getLocStart ctorExpr) (int (length ''QString'') - 2)) \<longrightarrow>
      fst (fixitReplaceWithFromLatin1 cb ctorExpr) = [] \<and>
      snd (fixitReplaceWithFromLatin1 cb ctorExpr) =
        [PrintLocation (getLocStart ctorExpr),
         PrintLocation (getLocWithOffset (getLocStart ctorExpr) (int (length ''QString'') - 2)),
         PrintLocation (getLocForEndOfToken cb (getLocStart ctorExpr) 0),
         QueueManualFixitWarning (getLocStart ctorExpr) FixItToFromLatin1])"
  by (simp add: fixitReplaceWithFromLatin1_def Let_def loc_isValid_def loc_isInvalid_def)

text \<open>
  One input per stage; in the last, the start is the location whose identifier plus 5
  wraps around to the invalid location.
\<close>

theorem fixitReplaceWithFromLatin1_stages_witness:
  "loc_isValid (getLocForEndOfToken ex_checkBase (getLocStart ex_ctorExpr) (- 1)) \<and>
   fixitReplaceWithFromLatin1 ex_checkBase ex_ctorExpr =
     ([CreateReplacement (SourceRange 100 101) ''QString::fromLatin1''], []) \<and>
   loc_isInvalid (getLocForEndOfToken ex_failingLexer (getLocStart ex_ctorExpr) (- 1)) \<and>
   loc_isValid (getLocWithOffset (getLocStart ex_ctorExpr) (int (length ''QString'') - 2)) \<and>
   fixitReplaceWithFromLatin1 ex_failingLexer ex_ctorExpr =
     ([CreateReplacement (SourceRange 100 105) ''QString::fromLatin1''], []) \<and>
   loc_isInvalid (getLocForEndOfToken ex_failingLexer
      (getLocStart ex_lateCtorExpr)
      (- 1)) \<and>
   loc_isInvalid (getLocWithOffset
      (getLocStart ex_lateCtorExpr)
      (int (length ''QString'') - 2)) \<and>
   fixitReplaceWithFromLatin1 ex_failingLexer
      ex_lateCtorExpr =
     ([], [PrintLocation 4294967291, PrintLocation 0, PrintLocation 0,
           QueueManualFixitWarning 4294967291 FixItToFromLatin1])"
  using fixitReplaceWithFromLatin1_stages [of ex_checkBase ex_ctorExpr]
    fixitReplaceWithFromLatin1_stages [of ex_failingLexer ex_ctorExpr]
    fixitReplaceWithFromLatin1_stages [of ex_failingLexer ex_lateCtorExpr]
  by (simp add: ex_defs ex_lateCtorExpr_def loc_isValid_def loc_isInvalid_def getLocWithOffset_def prod_eq_iff)

subsection \<open>When no fix can be made\<close>

text \<open>
  The wrap-in-call routines fail with an internal-error warning, the replace routine with
  a queued manual fixit warning; \<open>VisitStmt\<close> appends its own warning to whatever the
  routine raised.
\<close>

lemma Qt4_operator_path:
  assumes "stmtClass stm = CXXOperatorCallExprClass"
    and "fst (isInterestingOperatorCall stm [])"
  shows "\<exists>msg. Qt4_QStringFromArray_VisitStmt cb stm =
     Some (snd (fixOperatorCall cb stm) @
           [EmitWarning (getLocStart stm) msg (fst (fixOperatorCall cb stm))])"
  using assms
  by (auto simp: Qt4_QStringFromArray_VisitStmt_def isCXXConstructExpr_def Let_def
      split: prod.splits)

lemma Qt4_member_path:
  assumes "stmtClass stm = CXXMemberCallExprClass"
    and "fst (isInterestingMethodCall (calleeDecl stm) [])"
  shows "\<exists>msg. Qt4_QStringFromArray_VisitStmt cb stm =
     Some (snd (fixMethodCallCall cb stm) @
           [EmitWarning (getLocStart stm) msg (fst (fixMethodCallCall cb stm))])"
  using assms
  by (auto simp: Qt4_QStringFromArray_VisitStmt_def isCXXConstructExpr_def Let_def
      split: prod.splits)

lemma Qt4_ctor_path:
  assumes "isCXXConstructExpr stm"
    and "fst (isInterestingCtorCall (calleeDecl stm))"
    and "fixCtorCall cb stm = Some (fixits, evs)"
  shows "\<exists>msg. Qt4_QStringFromArray_VisitStmt cb stm =
     Some (evs @ [EmitWarning (getLocStart stm) msg fixits])"
  using assms
  by (auto simp: Qt4_QStringFromArray_VisitStmt_def isCXXConstructExpr_def Let_def
      split: prod.splits)

lemma fixOperatorCall_failure:
  "fst (fixOperatorCall cb op) = [] \<Longrightarrow>
     snd (fixOperatorCall cb op) = [EmitWarning (getLocStart op) ''internal error'' []]"
  by (auto simp: fixOperatorCall_def insertParentMethodCall_def Let_def split: if_splits)

lemma fixMethodCallCall_failure:
  "fst (fixMethodCallCall cb m) = [] \<Longrightarrow>
     snd (fixMethodCallCall cb m) = [EmitWarning (getLocStart m) ''internal error'' []]"
  by (auto simp: fixMethodCallCall_def insertParentMethodCall_def Let_def split: if_splits)

lemma fixitInsertFromLatin1_failure:
  "fixitInsertFromLatin1 cb c = Some ([], evs) \<Longrightarrow>
     evs = [EmitWarning (getLocStart c) ''Internal error'' []]"
  by (auto simp: fixitInsertFromLatin1_def insertParentMethodCall_def Let_def
      split: if_splits list.splits)

lemma fixitReplaceWithFromLatin1_failure:
  "fst (fixitReplaceWithFromLatin1 cb c) = [] \<Longrightarrow>
     \<exists>pre. snd (fixitReplaceWithFromLatin1 cb c) =
        pre @ [QueueManualFixitWarning (getLocStart c) FixItToFromLatin1] \<and>
        \<not> list_ex isEmitWarning pre"
  by (auto simp: fixitReplaceWithFromLatin1_def Let_def split: if_splits)

text \<open>
  C5, as the code has it. When the fix cannot be synthesized for a matched anti-pattern,
  the check still emits its warning, at the matched location and with no edit. Besides
  that warning, \<open>QDateTimeUtc::VisitStmt\<close> (fixit enabled, \<open>transformTwoCallsIntoOneV2\<close>
  failing) and the replace-constructor path of \<open>Qt4_QStringFromArray\<close> queue a manual
  fixit warning at the matched location; the wrap-in-call paths of \<open>Qt4_QStringFromArray\<close>
  (constructor by insertion, operator call, member call) emit an internal-error warning
  there and queue nothing.
\<close>

theorem failed_fixit_still_warns:
  "(isCurrentDateTimeChain stmt \<and> isFixitEnabled cb FixitAll \<and>
    \<not> fst (transformTwoCallsIntoOneV2 cb stmt baz []) \<longrightarrow>
      (\<exists>msg. QDateTimeUtc_VisitStmt cb stmt =
         [QueueManualFixitWarning (getLocStart stmt) FixitAll,
          EmitWarning (getLocStart stmt) msg []]))
   \<and> (isCXXConstructExpr stm \<and> fst (isInterestingCtorCall (calleeDecl stm)) \<and>
       fixCtorCall cb stm = Some (fixitReplaceWithFromLatin1 cb stm) \<and>
       fst (fixitReplaceWithFromLatin1 cb stm) = [] \<longrightarrow>
      (\<exists>pre msg. Qt4_QStringFromArray_VisitStmt cb stm =
         Some (pre @ [QueueManualFixitWarning (getLocStart stm) FixItToFromLatin1,
                      EmitWarning (getLocStart stm) msg []]) \<and>
         \<not> list_ex isEmitWarning pre))
   \<and> (isCXXConstructExpr stm \<and> fst (isInterestingCtorCall (calleeDecl stm)) \<and>
       fixCtorCall cb stm = fixitInsertFromLatin1 cb stm \<and>
       fixitInsertFromLatin1 cb stm = Some ([], evs) \<longrightarrow>
      (\<exists>msg. Qt4_QStringFromArray_VisitStmt cb stm =
         Some [EmitWarning (getLocStart stm) ''Internal error'' [],
               EmitWarning (getLocStart stm) msg []]))
   \<and> (stmtClass stm = CXXOperatorCallExprClass \<and> fst (isInterestingOperatorCall stm []) \<and>
       fst (fixOperatorCall cb stm) = [] \<longrightarrow>
      (\<exists>msg. Qt4_QStringFromArray_VisitStmt cb stm =
         Some [EmitWarning (getLocStart stm) ''internal error'' [],
               EmitWarning (getLocStart stm) msg []]))
   \<and> (stmtClass stm = CXXMemberCallExprClass \<and>
       fst (isInterestingMethodCall (calleeDecl stm) []) \<and>
       fst (fixMethodCallCall cb stm) = [] \<longrightarrow>
      (\<exists>msg. Qt4_QStringFromArray_VisitStmt cb stm =
         Some [EmitWarning (getLocStart stm) ''internal error'' [],
               EmitWarning (getLocStart stm) msg []]))"
proof (intro conjI impI; elim conjE)
  assume h: "isCurrentDateTimeChain stmt" "isFixitEnabled cb FixitAll"
    "\<not> fst (transformTwoCallsIntoOneV2 cb stmt baz [])"
  from h(3) have fails: "transformTwoCallsIntoOneV2 cb stmt t [] = (False, [])" for t
    by (simp add: transformTwoCallsIntoOneV2_def Let_def split: if_splits)
  from h(1) obtain m where m: "calleeDecl stmt = Some m"
    and "getQualifiedNameAsString m = ''QDateTime::toTime_t'' \<or>
         getQualifiedNameAsString m = ''QDateTime::toUTC''"
    by (auto simp: isCurrentDateTimeChain_def split: option.splits)
  then show "\<exists>msg. QDateTimeUtc_VisitStmt cb stmt =
         [QueueManualFixitWarning (getLocStart stmt) FixitAll,
          EmitWarning (getLocStart stmt) msg []]"
    using QDateTimeUtc_matched_toTime_t [OF h(1) m, of cb]
      QDateTimeUtc_matched_toUTC [OF h(1) m, of cb] h(2) fails
    by auto
next
  assume h: "isCXXConstructExpr stm" "fst (isInterestingCtorCall (calleeDecl stm))"
    "fixCtorCall cb stm = Some (fixitReplaceWithFromLatin1 cb stm)"
    "fst (fixitReplaceWithFromLatin1 cb stm) = []"
  from fixitReplaceWithFromLatin1_failure [OF h(4)] obtain pre where
    pre: "snd (fixitReplaceWithFromLatin1 cb stm) =
        pre @ [QueueManualFixitWarning (getLocStart stm) FixItToFromLatin1]"
    and quiet: "\<not> list_ex isEmitWarning pre" by blast
  from h(3) h(4) pre have "fixCtorCall cb stm =
      Some ([], pre @ [QueueManualFixitWarning (getLocStart stm) FixItToFromLatin1])"
    by (simp add: prod_eq_iff)
  from Qt4_ctor_path [OF h(1) h(2) this] quiet
  show "\<exists>pre msg. Qt4_QStringFromArray_VisitStmt cb stm =
         Some (pre @ [QueueManualFixitWarning (getLocStart stm) FixItToFromLatin1,
                      EmitWarning (getLocStart stm) msg []]) \<and>
         \<not> list_ex isEmitWarning pre"
    by auto
next
  assume h: "isCXXConstructExpr stm" "fst (isInterestingCtorCall (calleeDecl stm))"
    "fixCtorCall cb stm = fixitInsertFromLatin1 cb stm"
    "fixitInsertFromLatin1 cb stm = Some ([], evs)"
  from fixitInsertFromLatin1_failure [OF h(4)] h(3) h(4)
  have "fixCtorCall cb stm = Some ([], [EmitWarning (getLocStart stm) ''Internal error'' []])"
    by simp
  from Qt4_ctor_path [OF h(1) h(2) this]
  show "\<exists>msg. Qt4_QStringFromArray_VisitStmt cb stm =
         Some [EmitWarning (getLocStart stm) ''Internal error'' [],
               EmitWarning (getLocStart stm) msg []]"
    by simp
next
  assume h: "stmtClass stm = CXXOperatorCallExprClass" "fst (isInterestingOperatorCall stm [])"
    "fst (fixOperatorCall cb stm) = []"
  from Qt4_operator_path [OF h(1) h(2), of cb] fixOperatorCall_failure [OF h(3)] h(3)
  show "\<exists>msg. Qt4_QStringFromArray_VisitStmt cb stm =
         Some [EmitWarning (getLocStart stm) ''internal error'' [],
               EmitWarning (getLocStart stm) msg []]"
    by simp
next
  assume h: "stmtClass stm = CXXMemberCallExprClass"
    "fst (isInterestingMethodCall (calleeDecl stm) [])"
    "fst (fixMethodCallCall cb stm) = []"
  from Qt4_member_path [OF h(1) h(2), of cb] fixMethodCallCall_failure [OF h(3)] h(3)
  show "\<exists>msg. Qt4_QStringFromArray_VisitStmt cb stm =
         Some [EmitWarning (getLocStart stm) ''internal error'' [],
               EmitWarning (getLocStart stm) msg []]"
    by simp
qed

text \<open>One failing input per path.\<close>

theorem failed_fixit_still_warns_witness:
  "isCurrentDateTimeChain ex_unendedToTime_t \<and> isFixitEnabled ex_checkBase FixitAll \<and>
   \<not> fst (transformTwoCallsIntoOneV2 ex_checkBase ex_unendedToTime_t
            ''::currentDateTimeUtc().toTime_t()'' []) \<and>
   (\<exists>msg. QDateTimeUtc_VisitStmt ex_checkBase ex_unendedToTime_t =
      [QueueManualFixitWarning (getLocStart ex_unendedToTime_t) FixitAll,
       EmitWarning (getLocStart ex_unendedToTime_t) msg []]) \<and>
   isCXXConstructExpr ex_lateCtorExpr \<and>
   fst (isInterestingCtorCall (calleeDecl ex_lateCtorExpr)) \<and>
   fixCtorCall ex_lateTemporaryContext ex_lateCtorExpr =
     Some (fixitReplaceWithFromLatin1 ex_lateTemporaryContext ex_lateCtorExpr) \<and>
   fst (fixitReplaceWithFromLatin1 ex_lateTemporaryContext ex_lateCtorExpr) = [] \<and>
   (\<exists>pre msg. Qt4_QStringFromArray_VisitStmt ex_lateTemporaryContext ex_lateCtorExpr =
      Some (pre @ [QueueManualFixitWarning (getLocStart ex_lateCtorExpr) FixItToFromLatin1,
                   EmitWarning (getLocStart ex_lateCtorExpr) msg []]) \<and>
      \<not> list_ex isEmitWarning pre) \<and>
   isCXXConstructExpr ex_ctorExpr \<and>
   fst (isInterestingCtorCall (calleeDecl ex_ctorExpr)) \<and>
   fixCtorCall ex_failingLexer ex_ctorExpr = fixitInsertFromLatin1 ex_failingLexer ex_ctorExpr \<and>
   fixitInsertFromLatin1 ex_failingLexer ex_ctorExpr =
     Some ([], [EmitWarning 100 ''Internal error'' []]) \<and>
   (\<exists>msg. Qt4_QStringFromArray_VisitStmt ex_failingLexer ex_ctorExpr =
      Some [EmitWarning (getLocStart ex_ctorExpr) ''Internal error'' [],
            EmitWarning (getLocStart ex_ctorExpr) msg []]) \<and>
   stmtClass ex_operatorCall = CXXOperatorCallExprClass \<and>
   fst (isInterestingOperatorCall ex_operatorCall []) \<and>
   fst (fixOperatorCall ex_failingLexer ex_operatorCall) = [] \<and>
   (\<exists>msg. Qt4_QStringFromArray_VisitStmt ex_failingLexer ex_operatorCall =
      Some [EmitWarning (getLocStart ex_operatorCall) ''internal error'' [],
            EmitWarning (getLocStart ex_operatorCall) msg []]) \<and>
   stmtClass ex_memberCall = CXXMemberCallExprClass \<and>
   fst (isInterestingMethodCall (calleeDecl ex_memberCall) []) \<and>
   fst (fixMethodCallCall ex_failingLexer ex_memberCall) = [] \<and>
   (\<exists>msg. Qt4_QStringFromArray_VisitStmt ex_failingLexer ex_memberCall =
      Some [EmitWarning (getLocStart ex_memberCall) ''internal error'' [],
            EmitWarning (getLocStart ex_memberCall) msg []])"
proof -
  have a1: "isCurrentDateTimeChain ex_unendedToTime_t"
    by (simp add: isCurrentDateTimeChain_def callListForChain_def isCallExpr_def
        isCXXMethodDecl_def ex_unendedToTime_t_def ex_defs)
  have a2: "isFixitEnabled ex_checkBase FixitAll"
    by (simp add: ex_checkBase_def FixitAll_def)
  have a3: "\<not> fst (transformTwoCallsIntoOneV2 ex_checkBase ex_unendedToTime_t
            ''::currentDateTimeUtc().toTime_t()'' [])"
    by (simp add: transformTwoCallsIntoOneV2_def range_isInvalid_def range_isValid_def
        loc_isValid_def ex_unendedToTime_t_def)
  have b1: "isCXXConstructExpr ex_lateCtorExpr"
    by (simp add: isCXXConstructExpr_def ex_lateCtorExpr_def)
  have ctor: "isInterestingCtorCall (Some ex_QString_ctor) = (True, True, False)"
    by (simp add: isInterestingCtorCall_def isOfClass_def isInterestingParam_def
        ex_QString_ctor_def)
  have b2: "fst (isInterestingCtorCall (calleeDecl ex_lateCtorExpr))"
    by (simp add: ex_lateCtorExpr_def ctor)
  have b4: "fst (fixitReplaceWithFromLatin1 ex_lateTemporaryContext ex_lateCtorExpr) = []"
    by (simp add: fixitReplaceWithFromLatin1_def loc_isInvalid_def getLocWithOffset_def
        ex_lateTemporaryContext_def ex_lateCtorExpr_def ex_failingLexer_def ex_checkBase_def)
  have b3: "fixCtorCall ex_lateTemporaryContext ex_lateCtorExpr =
     Some (fixitReplaceWithFromLatin1 ex_lateTemporaryContext ex_lateCtorExpr)"
    by (simp add: fixCtorCall_def HierarchyUtils_parent_def ex_lateTemporaryContext_def
        ex_bindTemporary_def ex_functionalCast_def ex_lateCtorExpr_def)
  have c1: "isCXXConstructExpr ex_ctorExpr"
    by (simp add: isCXXConstructExpr_def ex_ctorExpr_def)
  have c2: "fst (isInterestingCtorCall (calleeDecl ex_ctorExpr))"
    by (simp add: ex_ctorExpr_def ctor)
  have c3: "fixCtorCall ex_failingLexer ex_ctorExpr = fixitInsertFromLatin1 ex_failingLexer ex_ctorExpr"
    by (simp add: fixCtorCall_def HierarchyUtils_parent_def ex_failingLexer_def ex_checkBase_def)
  have c4: "fixitInsertFromLatin1 ex_failingLexer ex_ctorExpr =
     Some ([], [EmitWarning 100 ''Internal error'' []])"
    by (simp add: fixitInsertFromLatin1_def range_isInvalid_def range_isValid_def loc_isValid_def
        ex_failingLexer_def ex_checkBase_def ex_ctorExpr_def)
  have d1: "stmtClass ex_operatorCall = CXXOperatorCallExprClass"
    by (simp add: ex_operatorCall_def)
  have d2: "fst (isInterestingOperatorCall ex_operatorCall [])"
    by (simp add: isInterestingOperatorCall_def isInterestingMethodCall_def
        isInterestingMethod_def isInterestingParam_def dyn_cast_CXXMethodDecl_def
        isCXXMethodDecl_def ex_defs)
  have d3: "fst (fixOperatorCall ex_failingLexer ex_operatorCall) = []"
    by (simp add: fixOperatorCall_def getNumArgs_def range_isInvalid_def range_isValid_def
        loc_isValid_def ex_defs)
  have e1: "stmtClass ex_memberCall = CXXMemberCallExprClass"
    by (simp add: ex_memberCall_def)
  have e2: "fst (isInterestingMethodCall (calleeDecl ex_memberCall) [])"
    by (simp add: isInterestingMethodCall_def isInterestingMethod_def isInterestingParam_def
        ex_defs)
  have e3: "fst (fixMethodCallCall ex_failingLexer ex_memberCall) = []"
    by (simp add: fixMethodCallCall_def getNumArgs_def range_isInvalid_def range_isValid_def
        loc_isValid_def ex_defs)
  from failed_fixit_still_warns [where stmt = ex_unendedToTime_t and cb = ex_checkBase
      and baz = "''::currentDateTimeUtc().toTime_t()''"] a1 a2 a3
  have a: "\<exists>msg. QDateTimeUtc_VisitStmt ex_checkBase ex_unendedToTime_t =
      [QueueManualFixitWarning (getLocStart ex_unendedToTime_t) FixitAll,
       EmitWarning (getLocStart ex_unendedToTime_t) msg []]"
    by blast
  from failed_fixit_still_warns [where stm = ex_lateCtorExpr and cb = ex_lateTemporaryContext] b1 b2 b3 b4
  have b: "\<exists>pre msg. Qt4_QStringFromArray_VisitStmt ex_lateTemporaryContext ex_lateCtorExpr =
      Some (pre @ [QueueManualFixitWarning (getLocStart ex_lateCtorExpr) FixItToFromLatin1,
                   EmitWarning (getLocStart ex_lateCtorExpr) msg []]) \<and>
      \<not> list_ex isEmitWarning pre"
    by blast
  from failed_fixit_still_warns [where stm = ex_ctorExpr and cb = ex_failingLexer
      and evs = "[EmitWarning 100 ''Internal error'' []]"] c1 c2 c3 c4
  have c: "\<exists>msg. Qt4_QStringFromArray_VisitStmt ex_failingLexer ex_ctorExpr =
      Some [EmitWarning (getLocStart ex_ctorExpr) ''Internal error'' [],
            EmitWarning (getLocStart ex_ctorExpr) msg []]"
    by blast
  from failed_fixit_still_warns [where stm = ex_operatorCall and cb = ex_failingLexer] d1 d2 d3
  have d: "\<exists>msg. Qt4_QStringFromArray_VisitStmt ex_failingLexer ex_operatorCall =
      Some [EmitWarning (getLocStart ex_operatorCall) ''internal error'' [],
            EmitWarning (getLocStart ex_operatorCall) msg []]"
    by blast
  from failed_fixit_still_warns [where stm = ex_memberCall and cb = ex_failingLexer] e1 e2 e3
  have e: "\<exists>msg. Qt4_QStringFromArray_VisitStmt ex_failingLexer ex_memberCall =
      Some [EmitWarning (getLocStart ex_memberCall) ''internal error'' [],
            EmitWarning (getLocStart ex_memberCall) msg []]"
    by blast
  from a1 a2 a3 a b1 b2 b3 b4 b c1 c2 c3 c4 c d1 d2 d3 d e1 e2 e3 e
  show ?thesis by (intro conjI)
qed

text \<open>
  \<open>s == "abc"\<close> with a lexer that finds no token end: the fix fails, the warning is
  emitted with no edit, and no manual fixit warning is queued.
\<close>

theorem manual_notice_counterexample:
  "isFixitEnabled ex_failingLexer FixItToFromLatin1 \<and>
   stmtClass ex_operatorCall = CXXOperatorCallExprClass \<and>
   fst (isInterestingOperatorCall ex_operatorCall []) \<and>
   fst (fixOperatorCall ex_failingLexer ex_operatorCall) = [] \<and>
   Qt4_QStringFromArray_VisitStmt ex_failingLexer ex_operatorCall =
     Some [EmitWarning 100 ''internal error'' [],
           EmitWarning 100 ''QString::operator==(const char *) being called'' []] \<and>
   \<not> (\<exists>evs. Qt4_QStringFromArray_VisitStmt ex_failingLexer ex_operatorCall = Some evs \<and>
              list_ex isQueueManualFixitWarning evs)"
proof -
  have i: "isInterestingOperatorCall ex_operatorCall [] = (True, ''operator=='', True, False)"
    by (simp add: isInterestingOperatorCall_def isInterestingMethodCall_def
        isInterestingMethod_def isInterestingParam_def dyn_cast_CXXMethodDecl_def
        isCXXMethodDecl_def ex_defs)
  have f: "fixOperatorCall ex_failingLexer ex_operatorCall =
      ([], [EmitWarning 100 ''internal error'' []])"
    by (simp add: fixOperatorCall_def getNumArgs_def range_isInvalid_def range_isValid_def
        loc_isValid_def ex_defs)
  have c: "stmtClass ex_operatorCall = CXXOperatorCallExprClass"
    by (simp add: ex_defs)
  have l: "getLocStart ex_operatorCall = 100"
    by (simp add: ex_defs)
  have v: "Qt4_QStringFromArray_VisitStmt ex_failingLexer ex_operatorCall =
     Some [EmitWarning 100 ''internal error'' [],
           EmitWarning 100 ''QString::operator==(const char *) being called'' []]"
    by (simp add: Qt4_QStringFromArray_VisitStmt_def isCXXConstructExpr_def c i f l)
  have e: "isFixitEnabled ex_failingLexer FixItToFromLatin1"
    by (simp add: ex_failingLexer_def ex_checkBase_def FixItToFromLatin1_def)
  from e c i f v show ?thesis by simp
qed

subsection \<open>The order of a call chain\<close>

text \<open>
  The walk back through the receivers meets the calls in the order of their nesting: each
  element of the walk is met again when walking back from any earlier one.
\<close>

lemma receivers_ordered: "sorted_wrt (\<lambda>a b. b \<in> set (receivers a)) (receivers c)"
proof (induction c rule: receivers.induct)
  case (1 c s e d r a)
  then show ?case by (cases r) auto
qed

lemma callListForChain_ordered:
  "sorted_wrt (\<lambda>a b. b \<in> set (receivers a)) (callListForChain c)"
  using sorted_wrt_filter [OF receivers_ordered, of isCallExpr c]
  by (auto simp: callListForChain_def)

lemma callListForChain_last_outermost:
  assumes "2 \<le> length (callListForChain c)"
  shows "isOutermostCallOf (last (callListForChain c)) (callListForChain c)"
proof -
  let ?chain = "callListForChain c"
  have ne: "?chain \<noteq> []" by (simp add: callListForChain_def)
  have "y = last ?chain \<or> last ?chain \<in> set (receivers y)" if y: "y \<in> set ?chain" for y
  proof -
    from y obtain i where i: "i < length ?chain" and yi: "?chain ! i = y"
      by (auto simp: in_set_conv_nth)
    show ?thesis
    proof (cases "i = length ?chain - 1")
      case True
      with yi ne show ?thesis by (simp add: last_conv_nth)
    next
      case False
      with i have "i < length ?chain - 1" and "length ?chain - 1 < length ?chain" by auto
      with callListForChain_ordered [of c]
      have "?chain ! (length ?chain - 1) \<in> set (receivers (?chain ! i))"
        by (simp add: sorted_wrt_iff_nth_less)
      with yi ne show ?thesis by (simp add: last_conv_nth)
    qed
  qed
  moreover have "last ?chain \<in> set ?chain" using ne by (rule last_in_set)
  ultimately show ?thesis by (simp add: isOutermostCallOf_def)
qed

text \<open>
  C6. The chain derived from a call starts with that call, and each of its elements is
  chained on all the later ones. So in a chain of at least two calls the element at the
  last index is the outermost call of the chain, the first call of \<open>a().b().c()\<close>: every
  other call of the chain is chained on it.
\<close>

theorem callListForChain_order:
  "hd (callListForChain c) = c \<and>
   sorted_wrt (\<lambda>a b. b \<in> set (receivers a)) (callListForChain c) \<and>
   (2 \<le> length (callListForChain c) \<longrightarrow>
      isOutermostCallOf (last (callListForChain c)) (callListForChain c))"
  using callListForChain_ordered [of c] callListForChain_last_outermost [of c]
  by (simp add: callListForChain_def)

text \<open>
  The chain of \<open>QDateTime::currentDateTime().toUTC().toTime_t()\<close> is the \<open>toTime_t()\<close>
  call, the \<open>toUTC()\<close> call and, last, the \<open>currentDateTime()\<close> call.
\<close>

theorem callListForChain_order_witness:
  "callListForChain ex_chainOfThree = [ex_chainOfThree, ex_toUTC, ex_currentDateTime] \<and>
   hd (callListForChain ex_chainOfThree) = ex_chainOfThree \<and>
   2 \<le> length (callListForChain ex_chainOfThree) \<and>
   last (callListForChain ex_chainOfThree) = ex_currentDateTime \<and>
   isOutermostCallOf ex_currentDateTime (callListForChain ex_chainOfThree)"
proof -
  have chain: "callListForChain ex_chainOfThree = [ex_chainOfThree, ex_toUTC, ex_currentDateTime]"
    by (simp add: callListForChain_def isCallExpr_def ex_chainOfThree_def ex_defs)
  from callListForChain_order [of ex_chainOfThree] chain show ?thesis by simp
qed

subsection \<open>Dispatch by declared interest\<close>

text \<open>
  C7. In a dispatch walk, a check that registered interest in statements only is invoked
  on statement nodes only, and a check that registered interest in declarations only is
  invoked on declaration nodes only.
\<close>

theorem dispatch_respects_interest:
  "Invocation c n \<in> set (dispatch checks translationUnit) \<Longrightarrow>
     (visitsStmts c \<and> \<not> visitsDecls c \<longrightarrow> nodeKind n = StatementNode) \<and>
     (visitsDecls c \<and> \<not> visitsStmts c \<longrightarrow> nodeKind n = DeclarationNode)"
  by (cases "nodeKind n") (auto simp: dispatch_def visitNode_def interestMatches_def)

text \<open>A statement check and a declaration check over a tree of two declarations and two statements.\<close>

theorem dispatch_respects_interest_witness:
  "Invocation ex_stmtCheck (Node StatementNode 3 []) \<in>
     set (dispatch [ex_stmtCheck, ex_declCheck] ex_translationUnit) \<and>
   visitsStmts ex_stmtCheck \<and> \<not> visitsDecls ex_stmtCheck \<and>
   nodeKind (Node StatementNode 3 []) = StatementNode \<and>
   Invocation ex_declCheck ex_translationUnit \<in>
     set (dispatch [ex_stmtCheck, ex_declCheck] ex_translationUnit) \<and>
   visitsDecls ex_declCheck \<and> \<not> visitsStmts ex_declCheck \<and>
   nodeKind ex_translationUnit = DeclarationNode"
proof -
  have a: "Invocation ex_stmtCheck (Node StatementNode 3 []) \<in>
     set (dispatch [ex_stmtCheck, ex_declCheck] ex_translationUnit)"
    by (simp add: dispatch_def visitNode_def interestMatches_def ex_stmtCheck_def
        ex_declCheck_def ex_translationUnit_def)
  have b: "Invocation ex_declCheck ex_translationUnit \<in>
     set (dispatch [ex_stmtCheck, ex_declCheck] ex_translationUnit)"
    by (simp add: dispatch_def visitNode_def interestMatches_def ex_stmtCheck_def
        ex_declCheck_def ex_translationUnit_def)
  from dispatch_respects_interest [OF a] dispatch_respects_interest [OF b] a b
  show ?thesis by (simp add: ex_stmtCheck_def ex_declCheck_def)
qed

subsection \<open>When qdatetime-utc warns\<close>

text \<open>
  C8. \<open>QDateTimeUtc::VisitStmt\<close> emits a warning exactly when the statement is a member
  call that resolves to \<open>QDateTime::toTime_t\<close> or \<open>QDateTime::toUTC\<close>, its chain has at
  least two calls, and the last call of the chain resolves to a method named
  \<open>QDateTime::currentDateTime\<close>; on every other statement it does nothing at all.
\<close>

theorem QDateTimeUtc_warns_iff:
  "(list_ex isEmitWarning (QDateTimeUtc_VisitStmt cb stmt) \<longleftrightarrow> isCurrentDateTimeChain stmt)
   \<and> (\<not> isCurrentDateTimeChain stmt \<longrightarrow> QDateTimeUtc_VisitStmt cb stmt = [])"
proof (cases "isCurrentDateTimeChain stmt")
  case True
  then show ?thesis by (simp add: QDateTimeUtc_matched_warns)
next
  case False
  then show ?thesis by (simp add: QDateTimeUtc_unmatched)
qed

text \<open>The chain \<open>QDateTime::currentDateTime().toTime_t()\<close>, and the call \<open>QDateTime::currentDateTime()\<close> alone.\<close>

theorem QDateTimeUtc_warns_iff_witness:
  "list_ex isEmitWarning (QDateTimeUtc_VisitStmt ex_checkBase ex_toTime_t) \<and>
   isCurrentDateTimeChain ex_toTime_t \<and>
   \<not> isCurrentDateTimeChain ex_currentDateTime \<and>
   QDateTimeUtc_VisitStmt ex_checkBase ex_currentDateTime = []"
proof -
  have a: "isCurrentDateTimeChain ex_toTime_t"
    by (simp add: isCurrentDateTimeChain_def callListForChain_def isCallExpr_def
        isCXXMethodDecl_def ex_defs)
  have b: "\<not> isCurrentDateTimeChain ex_currentDateTime"
    by (simp add: isCurrentDateTimeChain_def ex_defs)
  from a b QDateTimeUtc_warns_iff [of ex_checkBase ex_toTime_t]
    QDateTimeUtc_warns_iff [of ex_checkBase ex_currentDateTime]
  show ?thesis by simp
qed

subsection \<open>Interesting constructors\<close>

text \<open>
  C9. \<open>isInterestingCtorCall\<close> answers true exactly when the constructor is not null,
  belongs to class \<open>QString\<close>, has a first parameter, and the type of that parameter
  prints as \<open>const class QByteArray &\<close> or \<open>const char *\<close>. The parameters after the
  first have no influence on the result or on the two flags.
\<close>

theorem isInterestingCtorCall_iff:
  "(fst (isInterestingCtorCall ctor) \<longleftrightarrow>
      (\<exists>c p ps. ctor = Some c \<and> isOfClass c ''QString'' \<and> params c = p # ps \<and>
         (getTypeAsString p = ''const class QByteArray &'' \<or> getTypeAsString p = ''const char *'')))
   \<and> isInterestingCtorCall (Some (c\<lparr>params := p # ps\<rparr>)) =
       isInterestingCtorCall (Some (c\<lparr>params := p # ps'\<rparr>))"
proof
  show "fst (isInterestingCtorCall ctor) \<longleftrightarrow>
      (\<exists>c p ps. ctor = Some c \<and> isOfClass c ''QString'' \<and> params c = p # ps \<and>
         (getTypeAsString p = ''const class QByteArray &'' \<or> getTypeAsString p = ''const char *''))"
  proof (cases ctor)
    case None
    then show ?thesis by (simp add: isInterestingCtorCall_def)
  next
    case (Some c)
    show ?thesis
    proof (cases "params c")
      case Nil
      with Some show ?thesis by (simp add: isInterestingCtorCall_def)
    next
      case (Cons p ps)
      with Some show ?thesis
        by (auto simp: isInterestingCtorCall_def isInterestingParam_def Let_def split: bool.splits)
    qed
  qed
next
  show "isInterestingCtorCall (Some (c\<lparr>params := p # ps\<rparr>)) =
       isInterestingCtorCall (Some (c\<lparr>params := p # ps'\<rparr>))"
    by (simp add: isInterestingCtorCall_def isOfClass_def)
qed

text \<open>
  The constructor \<open>QString(const char *)\<close> is interesting; a constructor of \<open>QString\<close>
  taking an \<open>int\<close> and then a \<open>const char *\<close> is not.
\<close>

theorem isInterestingCtorCall_iff_witness:
  "fst (isInterestingCtorCall (Some ex_QString_ctor)) \<and>
   \<not> fst (isInterestingCtorCall
            (Some (ex_QString_ctor\<lparr>params := [ParmVarDecl ''int'', ParmVarDecl ''const char *'']\<rparr>)))"
  using isInterestingCtorCall_iff [of "Some ex_QString_ctor"]
    isInterestingCtorCall_iff
      [of "Some (ex_QString_ctor\<lparr>params := [ParmVarDecl ''int'', ParmVarDecl ''const char *'']\<rparr>)"]
  by (simp add: ex_defs isOfClass_def)

subsection \<open>Wrong argument counts\<close>

text \<open>
  C10. \<open>fixOperatorCall\<close> on an operator call that does not have exactly two arguments,
  and \<open>fixMethodCallCall\<close> on a member call that does not have exactly one, return the
  empty vector and emit one warning with the text \<open>internal error\<close>.
\<close>

theorem wrong_arg_count_internal_error:
  "(getNumArgs op \<noteq> 2 \<longrightarrow>
      fixOperatorCall cb op = ([], [EmitWarning (getLocStart op) ''internal error'' []]))
   \<and> (getNumArgs memberExpr \<noteq> 1 \<longrightarrow>
      fixMethodCallCall cb memberExpr =
        ([], [EmitWarning (getLocStart memberExpr) ''internal error'' []]))"
  by (simp add: fixOperatorCall_def fixMethodCallCall_def)

text \<open>An operator call with one argument and a member call with none.\<close>

theorem wrong_arg_count_internal_error_witness:
  "getNumArgs ex_badOperatorCall \<noteq> 2 \<and>
   fixOperatorCall ex_checkBase ex_badOperatorCall = ([], [EmitWarning 100 ''internal error'' []]) \<and>
   getNumArgs ex_badMemberCall \<noteq> 1 \<and>
   fixMethodCallCall ex_checkBase ex_badMemberCall = ([], [EmitWarning 100 ''internal error'' []])"
  using wrong_arg_count_internal_error [of ex_badOperatorCall ex_checkBase ex_badMemberCall]
  by (simp add: ex_defs getNumArgs_def)

end
